theory Spec2Isabelle
  imports Main "HOL-Library.Word"
begin

section \<open>Values shared by the concierge server and its collaborators\<close>

text \<open>
  Go errors. \<open>fmt.Errorf("msg: %w", err)\<close> is \<open>Wrapped msg err\<close>; every other error is
  an \<open>Err\<close> carrying its text. A Go \<open>error\<close> variable is an \<open>error option\<close>, with
  \<open>None\<close> for \<open>nil\<close>.
\<close>

datatype error = Err string | Wrapped string error

text \<open>A Go function either returns or panics (nil pointer dereference).\<close>

datatype 'a outcome = Panic | Returned 'a

text \<open>Pointers to heap objects (authenticator caches, certificate providers).\<close>

type_synonym ref = nat

text \<open>\<open>time.Duration\<close> and \<open>int64\<close>: 64-bit integers, multiplication wraps.\<close>

type_synonym int64 = "64 word"

definition Second :: int64 where
  "Second = 1000000000"

definition Hour :: int64 where
  "Hour = 3600 * Second"

subsection \<open>Identities, authenticators, certificates\<close>

record Identity =
  username :: string
  groups :: "string list"

text \<open>An authenticator turns a presented token into an identity, or reports not-authenticated.\<close>

type_synonym Authenticator = "string \<Rightarrow> Identity option"

record AuthenticatorID =
  id_kind :: string
  id_apiGroup :: string
  id_name :: string

record CertKey =
  certChain :: string
  privateKey :: string
  certName :: "string option"

text \<open>\<open>tls.Certificate\<close>: the leaf issued by \<open>certauthority.CA.Issue\<close>.\<close>

datatype tls_Certificate = TLSCertificate string

datatype CA = CA string

text \<open>An HTTP request and response, header names in the canonical form of \<open>http.Header\<close>.\<close>

record Request =
  req_method :: string
  req_path :: string
  req_query :: string
  req_headers :: "(string \<times> string) list"
  req_body :: string

record Response =
  resp_status :: nat
  resp_headers :: "(string \<times> string) list"
  resp_body :: string

subsection \<open>The process state\<close>

text \<open>
  The steps of \<open>runServer\<close> that can return an error, and the text each one is wrapped with.
\<close>

datatype step =
    LoadConfig
  | ReadPodMetadata
  | PrepareControllers
  | ConfigureAggregatedAPIServer
  | CreateAggregatedAPIServer
  | CreateImpersonationCA
  | CreateImpersonationCert
  | CreateImpersonationProxy

fun failure_message :: "step \<Rightarrow> string" where
  "failure_message LoadConfig = ''could not load config''"
| "failure_message ReadPodMetadata = ''could not read pod metadata''"
| "failure_message PrepareControllers = ''could not prepare controllers''"
| "failure_message ConfigureAggregatedAPIServer = ''could not configure aggregated API server''"
| "failure_message CreateAggregatedAPIServer = ''could not create aggregated API server''"
| "failure_message CreateImpersonationCA = ''could not create impersonation CA''"
| "failure_message CreateImpersonationCert = ''could not create impersonation cert''"
| "failure_message CreateImpersonationProxy = ''could not create impersonation proxy''"

text \<open>\<open>tls.Config\<close>: the fields \<open>crypto/tls\<close> consults for the server certificate.\<close>

record tls_Config =
  MinVersion :: nat
  Certificates :: "tls_Certificate list"
  GetCertificate :: "ref option"

definition VersionTLS12 :: nat where
  "VersionTLS12 = 771"

text \<open>The handler returned by \<open>impersonator.New\<close>.\<close>

record Impersonator =
  imp_cache :: ref
  imp_log :: string

record http_Server =
  Addr :: string
  Handler :: Impersonator
  TLSConfig :: tls_Config

datatype hook = Hook nat

datatype CertIssuer = DynamicCertAuthority ref

record RecommendedOptions =
  EtcdPathPrefix :: string
  Etcd :: "string option"
  GeneratedCert :: "ref option"
  BindPort :: nat

record RecommendedConfig =
  SecureServing_Cert :: "ref option"
  SecureServing_Port :: nat

record ExtraConfig =
  Authenticator :: ref
  Issuer :: CertIssuer
  StartControllersPostStartHook :: hook

record apiserver_Config =
  GenericConfig :: RecommendedConfig
  ExtraCfg :: ExtraConfig

datatype Server = Server apiserver_Config

fun server_config :: "Server \<Rightarrow> apiserver_Config" where
  "server_config (Server c) = c"

record state =
  next_ref :: ref
  caches :: "ref \<rightharpoonup> (AuthenticatorID \<rightharpoonup> Authenticator)"
  providers :: "ref \<rightharpoonup> CertKey option"
  steps :: "(step \<times> error option) list"
  goroutines :: "http_Server list"
  running :: "Server list"
  klog :: "(error \<times> string) list"
  authn_calls :: "(AuthenticatorID \<times> string) list"
  upstream_requests :: "Request list"

definition init_state :: state where
  "init_state = \<lparr> next_ref = 0, caches = Map.empty, providers = Map.empty, steps = [],
     goroutines = [], running = [], klog = [],
     authn_calls = [], upstream_requests = [] \<rparr>"

text \<open>Ghost instrumentation: note the outcome of one \<open>x, err := ...\<close> statement of \<open>runServer\<close>.\<close>

definition record_step :: "step \<Rightarrow> error option \<Rightarrow> state \<Rightarrow> state" where
  "record_step stp r st = st\<lparr> steps := steps st @ [(stp, r)] \<rparr>"


section \<open>The collaborators of \<open>runServer\<close>\<close>

text \<open>\<open>App\<close>: the command line flags.\<close>

record App =
  configPath :: string
  downwardAPIPath :: string

datatype PodInfo = PodInfo string

datatype NamesConfig = NamesConfig string

datatype KubeCertAgentConfig = KubeCertAgentConfig string

text \<open>
  \<open>concierge.Config\<close> as \<open>runServer\<close> reads it. A pointer field is an option, \<open>None\<close>
  for \<open>nil\<close>.
\<close>

record Config =
  APIGroupSuffix :: "string option"
  Names :: NamesConfig
  Labels :: "(string \<times> string) list"
  KubeCertAgent :: KubeCertAgentConfig
  DiscoveryInfo_URL :: "string option"
  DurationSeconds :: "int64 option"
  RenewBeforeSeconds :: "int64 option"

text \<open>\<open>controllermanager.Config\<close>.\<close>

record cm_Config =
  ServerInstallationInfo :: PodInfo
  cm_APIGroupSuffix :: string
  cm_NamesConfig :: NamesConfig
  cm_Labels :: "(string \<times> string) list"
  cm_KubeCertAgentConfig :: KubeCertAgentConfig
  DiscoveryURLOverride :: "string option"
  DynamicServingCertProvider :: ref
  DynamicSigningCertProvider :: ref
  ServingCertDuration :: int64
  ServingCertRenewBefore :: int64
  AuthenticatorCache :: ref

text \<open>
  What the packages outside \<open>runServer\<close> answer: the file system, the Kubernetes
  libraries, the certificate authority and the network. Each is a parameter.
\<close>

record env =
  concierge_FromPath :: "string \<Rightarrow> error + Config"
  downward_Load :: "string \<Rightarrow> error + PodInfo"
  controllermanager_PrepareControllers :: "cm_Config \<Rightarrow> error + hook"
  GroupName :: string
  apigroup_Make :: "string \<Rightarrow> string \<Rightarrow> string \<times> bool"
  ApplyTo_err :: "RecommendedOptions \<Rightarrow> error option"
  Complete_New_err :: "apiserver_Config \<Rightarrow> error option"
  certauthority_New :: "string \<Rightarrow> int64 \<Rightarrow> error + CA"
  ca_Issue :: "CA \<Rightarrow> string \<Rightarrow> string list \<Rightarrow> string list \<Rightarrow> int64 \<Rightarrow> error + tls_Certificate"
  impersonator_New_err :: "ref \<Rightarrow> string \<Rightarrow> error option"
  ListenAndServeTLS :: "http_Server \<Rightarrow> error option"
  GenericAPIServer_Run :: "Server \<Rightarrow> error option"

subsection \<open>Constructors of the shared objects\<close>

text \<open>
  Modelled from the spec: \<open>authncache.New\<close> is not part of the sources at hand. It
  returns a new, empty Authenticator Cache: a fresh object on the heap.
\<close>

definition authncache_New :: "state \<Rightarrow> ref \<times> state" where
  "authncache_New st =
     (next_ref st,
      st\<lparr> next_ref := next_ref st + 1, caches := (caches st)(next_ref st \<mapsto> Map.empty) \<rparr>)"

text \<open>
  Modelled from the spec: \<open>dynamiccert.New\<close> is not part of the sources at hand. It
  returns a new Dynamic Certificate Provider, created empty (unset).
\<close>

definition dynamiccert_New :: "state \<Rightarrow> ref \<times> state" where
  "dynamiccert_New st =
     (next_ref st,
      st\<lparr> next_ref := next_ref st + 1, providers := (providers st)(next_ref st \<mapsto> None) \<rparr>)"

text \<open>
  Modelled from the spec: \<open>dynamiccertauthority.New\<close> is not part of the sources at hand.
  The Credential Issuer is a certificate authority sourced from the provider it is given.
\<close>

definition dynamiccertauthority_New :: "ref \<Rightarrow> CertIssuer" where
  "dynamiccertauthority_New provider = DynamicCertAuthority provider"

text \<open>
  Modelled from the spec: \<open>impersonator.New\<close> is not part of the sources at hand. The
  proxy authenticates through the Authenticator Cache it is constructed with.
\<close>

definition impersonator_New :: "env \<Rightarrow> ref \<Rightarrow> string \<Rightarrow> error + Impersonator" where
  "impersonator_New env cache log =
     (case impersonator_New_err env cache log of
        Some err \<Rightarrow> Inl err
      | None \<Rightarrow> Inr \<lparr> imp_cache = cache, imp_log = log \<rparr>)"

subsection \<open>\<open>getAggregatedAPIServerConfig\<close>\<close>

definition NewRecommendedOptions :: "string \<Rightarrow> RecommendedOptions" where
  "NewRecommendedOptions prefix =
     \<lparr> EtcdPathPrefix = prefix, Etcd = Some prefix, GeneratedCert = None, BindPort = 443 \<rparr>"

definition NewRecommendedConfig :: RecommendedConfig where
  "NewRecommendedConfig = \<lparr> SecureServing_Cert = None, SecureServing_Port = 0 \<rparr>"

text \<open>
  \<open>ApplyTo\<close>, as the comment in \<open>getAggregatedAPIServerConfig\<close> describes it: among other
  things it copies \<open>recommendedOptions.SecureServing.ServerCert.GeneratedCert\<close> into
  \<open>serverConfig.SecureServing.Cert\<close>. Whether it fails is the library's answer.
\<close>

definition ApplyTo :: "env \<Rightarrow> RecommendedOptions \<Rightarrow> RecommendedConfig \<Rightarrow> error + RecommendedConfig" where
  "ApplyTo env opts serverConfig =
     (case ApplyTo_err env opts of
        Some err \<Rightarrow> Inl err
      | None \<Rightarrow> Inr (serverConfig\<lparr> SecureServing_Cert := GeneratedCert opts,
                                    SecureServing_Port := BindPort opts \<rparr>))"

definition getAggregatedAPIServerConfig ::
  "env \<Rightarrow> ref \<Rightarrow> ref \<Rightarrow> CertIssuer \<Rightarrow> hook \<Rightarrow> string \<Rightarrow> error + apiserver_Config" where
  "getAggregatedAPIServerConfig env dynamicCertProvider authenticator issuer
       startControllersPostStartHook apiGroupSuffix =
     (case apigroup_Make env (GroupName env) apiGroupSuffix of
        (apiGroup, ok) \<Rightarrow>
          if \<not> ok then
            Inl (Err (''cannot make api group from '' @ GroupName env @ ''/'' @ apiGroupSuffix))
          else
            let defaultEtcdPathPrefix = ''/registry/'' @ apiGroup;
                recommendedOptions = NewRecommendedOptions defaultEtcdPathPrefix;
                recommendedOptions = recommendedOptions\<lparr> Etcd := None \<rparr>;
                recommendedOptions = recommendedOptions\<lparr> GeneratedCert := Some dynamicCertProvider \<rparr>;
                recommendedOptions = recommendedOptions\<lparr> BindPort := 8443 \<rparr>;
                serverConfig = NewRecommendedConfig
            in (case ApplyTo env recommendedOptions serverConfig of
                  Inl err \<Rightarrow> Inl err
                | Inr serverConfig \<Rightarrow>
                    Inr \<lparr> GenericConfig = serverConfig,
                          ExtraCfg = \<lparr> Authenticator = authenticator,
                                       Issuer = issuer,
                                       StartControllersPostStartHook = startControllersPostStartHook \<rparr> \<rparr>))"

subsection \<open>\<open>runServer\<close>\<close>

text \<open>
  \<open>go func() { ... ListenAndServeTLS ... }()\<close>: the statement only starts the goroutine,
  which \<open>runServer\<close> never joins.
\<close>

definition go_ListenAndServeTLS :: "http_Server \<Rightarrow> state \<Rightarrow> state" where
  "go_ListenAndServeTLS srv st = st\<lparr> goroutines := goroutines st @ [srv] \<rparr>"

text \<open>The body of that goroutine: an error of the listener is logged, nothing else.\<close>

definition proxy_goroutine :: "env \<Rightarrow> http_Server \<Rightarrow> state \<Rightarrow> state" where
  "proxy_goroutine env srv st =
     (case ListenAndServeTLS env srv of
        Some err \<Rightarrow> st\<lparr> klog := klog st @ [(err, ''could not serve impersonation proxy'')] \<rparr>
      | None \<Rightarrow> st)"

definition PrepareRun_Run :: "env \<Rightarrow> Server \<Rightarrow> state \<Rightarrow> error option \<times> state" where
  "PrepareRun_Run env server st =
     (GenericAPIServer_Run env server, st\<lparr> running := running st @ [server] \<rparr>)"

definition runServer :: "env \<Rightarrow> App \<Rightarrow> state \<Rightarrow> error option outcome \<times> state" where
  "runServer env a st =
    (case concierge_FromPath env (configPath a) of
       Inl err \<Rightarrow>
         (Returned (Some (Wrapped ''could not load config'' err)),
          record_step LoadConfig (Some err) st)
     | Inr cfg \<Rightarrow>
    (let st = record_step LoadConfig None st in
     case downward_Load env (downwardAPIPath a) of
       Inl err \<Rightarrow>
         (Returned (Some (Wrapped ''could not read pod metadata'' err)),
          record_step ReadPodMetadata (Some err) st)
     | Inr podInfo \<Rightarrow>
    (let st = record_step ReadPodMetadata None st in
     case authncache_New st of (authenticators, st) \<Rightarrow>
    (case dynamiccert_New st of (dynamicServingCertProvider, st) \<Rightarrow>
    (case dynamiccert_New st of (dynamicSigningCertProvider, st) \<Rightarrow>
    (case APIGroupSuffix cfg of
       None \<Rightarrow> (Panic, st)
     | Some apiGroupSuffix \<Rightarrow>
    (case DurationSeconds cfg of
       None \<Rightarrow> (Panic, st)
     | Some durationSeconds \<Rightarrow>
    (case RenewBeforeSeconds cfg of
       None \<Rightarrow> (Panic, st)
     | Some renewBeforeSeconds \<Rightarrow>
    (case controllermanager_PrepareControllers env
            \<lparr> ServerInstallationInfo = podInfo,
              cm_APIGroupSuffix = apiGroupSuffix,
              cm_NamesConfig = Names cfg,
              cm_Labels = Labels cfg,
              cm_KubeCertAgentConfig = KubeCertAgent cfg,
              DiscoveryURLOverride = DiscoveryInfo_URL cfg,
              DynamicServingCertProvider = dynamicServingCertProvider,
              DynamicSigningCertProvider = dynamicSigningCertProvider,
              ServingCertDuration = durationSeconds * Second,
              ServingCertRenewBefore = renewBeforeSeconds * Second,
              AuthenticatorCache = authenticators \<rparr> of
       Inl err \<Rightarrow>
         (Returned (Some (Wrapped ''could not prepare controllers'' err)),
          record_step PrepareControllers (Some err) st)
     | Inr startControllersFunc \<Rightarrow>
    (let st = record_step PrepareControllers None st in
     case getAggregatedAPIServerConfig env
            dynamicServingCertProvider
            authenticators
            (dynamiccertauthority_New dynamicSigningCertProvider)
            startControllersFunc
            apiGroupSuffix of
       Inl err \<Rightarrow>
         (Returned (Some (Wrapped ''could not configure aggregated API server'' err)),
          record_step ConfigureAggregatedAPIServer (Some err) st)
     | Inr aggregatedAPIServerConfig \<Rightarrow>
    (let st = record_step ConfigureAggregatedAPIServer None st in
     case Complete_New_err env aggregatedAPIServerConfig of
       Some err \<Rightarrow>
         (Returned (Some (Wrapped ''could not create aggregated API server'' err)),
          record_step CreateAggregatedAPIServer (Some err) st)
     | None \<Rightarrow>
    (let server = Server aggregatedAPIServerConfig;
         st = record_step CreateAggregatedAPIServer None st in
     case certauthority_New env ''test CA'' (24 * Hour) of
       Inl err \<Rightarrow>
         (Returned (Some (Wrapped ''could not create impersonation CA'' err)),
          record_step CreateImpersonationCA (Some err) st)
     | Inr impersonationCA \<Rightarrow>
    (let st = record_step CreateImpersonationCA None st in
     case ca_Issue env impersonationCA [] [''impersonation-proxy''] [] (24 * Hour) of
       Inl err \<Rightarrow>
         (Returned (Some (Wrapped ''could not create impersonation cert'' err)),
          record_step CreateImpersonationCert (Some err) st)
     | Inr impersonationCert \<Rightarrow>
    (let st = record_step CreateImpersonationCert None st in
     case impersonator_New env authenticators ''impersonation-proxy'' of
       Inl err \<Rightarrow>
         (Returned (Some (Wrapped ''could not create impersonation proxy'' err)),
          record_step CreateImpersonationProxy (Some err) st)
     | Inr impersonationProxy \<Rightarrow>
    (let st = record_step CreateImpersonationProxy None st;
         impersonationProxyServer =
           \<lparr> Addr = ''0.0.0.0:8444'',
             Handler = impersonationProxy,
             TLSConfig = \<lparr> MinVersion = VersionTLS12,
                           Certificates = [impersonationCert],
                           GetCertificate = None \<rparr> \<rparr>;
         st = go_ListenAndServeTLS impersonationProxyServer st
     in case PrepareRun_Run env server st of
          (err, st) \<Rightarrow> (Returned err, st))))))))))))))))"


section \<open>The Dynamic Certificate Provider and the servers reading it\<close>

text \<open>
  Modelled from the spec: the package \<open>dynamiccert\<close> is not part of the sources at hand.
  A provider is a cell holding either nothing (unset) or a complete certificate, key and
  optional name; \<open>CurrentCert\<close> reads it, \<open>Set\<close> and \<open>UnsetCert\<close> replace it whole.
\<close>

definition provider_CurrentCert :: "state \<Rightarrow> ref \<Rightarrow> CertKey option" where
  "provider_CurrentCert st p = (case providers st p of Some (Some ck) \<Rightarrow> Some ck | _ \<Rightarrow> None)"

definition provider_Set :: "ref \<Rightarrow> string \<Rightarrow> string \<Rightarrow> string option \<Rightarrow> state \<Rightarrow> state" where
  "provider_Set p cert key name st =
     st\<lparr> providers := (providers st)(p \<mapsto> Some \<lparr> certChain = cert, privateKey = key, certName = name \<rparr>) \<rparr>"



text \<open>A running server: its configuration and the certificate the machinery loaded last.\<close>

record serving =
  serving_server :: Server
  loaded :: "CertKey option"




text \<open>
  The certificate \<open>crypto/tls\<close> presents for a \<open>tls.Config\<close>: \<open>GetCertificate\<close> is
  only called if the client supplies a server name or if \<open>Certificates\<close> is empty;
  otherwise the first element of \<open>Certificates\<close> is presented. A \<open>GetCertificate\<close>
  hook is a reader of one provider.
\<close>

datatype handshake = Refused | Presented tls_Certificate

definition getCertificate :: "state \<Rightarrow> tls_Config \<Rightarrow> string \<Rightarrow> handshake" where
  "getCertificate st c serverName =
     (case (if Certificates c = [] then GetCertificate c
            else if serverName = [] then None
            else GetCertificate c) of
        Some p \<Rightarrow> (case provider_CurrentCert st p of
                      None \<Rightarrow> Refused
                    | Some ck \<Rightarrow> Presented (TLSCertificate (certChain ck)))
      | None \<Rightarrow> (case Certificates c of
                    [] \<Rightarrow> Refused
                  | cert # _ \<Rightarrow> Presented cert))"

section \<open>The Authenticator Cache\<close>

text \<open>
  Modelled from the spec: the package \<open>authncache\<close> is not part of the sources at hand.
  \<open>Get\<close> returns the authenticator stored under the id or not-found, \<open>Store\<close> replaces the
  entry of the id, \<open>Delete\<close> removes it.
\<close>

definition cache_Get :: "state \<Rightarrow> ref \<Rightarrow> AuthenticatorID \<Rightarrow> Authenticator option" where
  "cache_Get st c k = (case caches st c of None \<Rightarrow> None | Some m \<Rightarrow> m k)"

definition cache_Store :: "ref \<Rightarrow> AuthenticatorID \<Rightarrow> Authenticator \<Rightarrow> state \<Rightarrow> state" where
  "cache_Store c k v st =
     (case caches st c of
        None \<Rightarrow> st
      | Some m \<Rightarrow> st\<lparr> caches := (caches st)(c \<mapsto> m(k \<mapsto> v)) \<rparr>)"

definition cache_Delete :: "ref \<Rightarrow> AuthenticatorID \<Rightarrow> state \<Rightarrow> state" where
  "cache_Delete c k st =
     (case caches st c of
        None \<Rightarrow> st
      | Some m \<Rightarrow> st\<lparr> caches := (caches st)(c \<mapsto> m(k := None)) \<rparr>)"

section \<open>The Impersonation Proxy handler\<close>

text \<open>
  Modelled from the spec: the package \<open>impersonator\<close> is not part of the sources at hand.
  Per request the proxy extracts the bearer token, looks the configured authenticator id up
  in the Authenticator Cache, authenticates once, answers 401 on a missing credential, a
  cache miss or a failed authentication, and otherwise strips the client's impersonation
  headers, adds \<open>Impersonate-User\<close> and one \<open>Impersonate-Group\<close> per group and forwards
  the request upstream with method, path, query and body unchanged. An upstream error is
  logged and answered with a gateway error.
\<close>

definition bearer_token :: "string \<Rightarrow> string option" where
  "bearer_token v = (if take 7 v = ''Bearer '' then Some (drop 7 v) else None)"

definition extract_credential :: "Request \<Rightarrow> string option" where
  "extract_credential req =
     (case map_of (req_headers req) ''Authorization'' of
        None \<Rightarrow> None
      | Some v \<Rightarrow> bearer_token v)"

definition is_impersonation_header :: "string \<Rightarrow> bool" where
  "is_impersonation_header n = (n = ''Impersonate-User'' \<or> n = ''Impersonate-Group'')"

definition strip_impersonation_headers :: "(string \<times> string) list \<Rightarrow> (string \<times> string) list" where
  "strip_impersonation_headers hs = filter (\<lambda>h. \<not> is_impersonation_header (fst h)) hs"

definition impersonation_headers :: "Identity \<Rightarrow> (string \<times> string) list" where
  "impersonation_headers ident =
     (''Impersonate-User'', username ident) # map (\<lambda>g. (''Impersonate-Group'', g)) (groups ident)"

definition header_values :: "string \<Rightarrow> (string \<times> string) list \<Rightarrow> string list" where
  "header_values n hs = map snd (filter (\<lambda>h. fst h = n) hs)"

definition unauthorized :: Response where
  "unauthorized = \<lparr> resp_status = 401, resp_headers = [], resp_body = ''Unauthorized'' \<rparr>"

definition bad_gateway :: Response where
  "bad_gateway = \<lparr> resp_status = 502, resp_headers = [], resp_body = ''Bad Gateway'' \<rparr>"

definition ServeHTTP ::
  "(Request \<Rightarrow> error + Response) \<Rightarrow> Impersonator \<Rightarrow> AuthenticatorID \<Rightarrow> Request \<Rightarrow> state
     \<Rightarrow> Response \<times> state" where
  "ServeHTTP upstream p authID req st =
     (case extract_credential req of
        None \<Rightarrow> (unauthorized, st)
      | Some token \<Rightarrow>
     (case cache_Get st (imp_cache p) authID of
        None \<Rightarrow> (unauthorized, st)
      | Some authn \<Rightarrow>
     (let st = st\<lparr> authn_calls := authn_calls st @ [(authID, token)] \<rparr> in
      case authn token of
        None \<Rightarrow> (unauthorized, st)
      | Some ident \<Rightarrow>
     (let forwarded = req\<lparr> req_headers :=
                            strip_impersonation_headers (req_headers req) @ impersonation_headers ident \<rparr>;
          st = st\<lparr> upstream_requests := upstream_requests st @ [forwarded] \<rparr> in
      case upstream forwarded of
        Inl err \<Rightarrow> (bad_gateway, st\<lparr> klog := klog st @ [(err, ''could not proxy request upstream'')] \<rparr>)
      | Inr resp \<Rightarrow> (resp, st)))))"

section \<open>The test helper \<open>addTestClusterRoleBinding\<close>\<close>

text \<open>
  An error of the Kubernetes client: a \<open>*errors.StatusError\<close> with its \<open>int32\<close> status
  code, or an error of any other type.
\<close>

datatype k8s_error = StatusError "32 word" | OtherError string

record ClusterRoleBinding =
  crb_Name :: string
  crb_Subjects :: "(string \<times> string \<times> string) list"
  crb_RoleRef :: "string \<times> string \<times> string"

text \<open>What the admin client answers to the calls of the helper.\<close>

record admin_client =
  ClusterRoleBindings_Get :: "string \<Rightarrow> k8s_error option"
  ClusterRoleBindings_Create :: "ClusterRoleBinding \<Rightarrow> k8s_error option"

datatype api_call = Call_Get string | Call_Create ClusterRoleBinding

datatype cleanup = Cleanup_Delete string

text \<open>
  \<open>*testing.T\<close>: whether the test has been marked failed, the functions registered with
  \<open>t.Cleanup\<close> in the order of registration, and the calls made on the admin client.
\<close>

record T =
  failed :: bool
  cleanups :: "cleanup list"
  api_calls :: "api_call list"

text \<open>A failed \<open>require\<close> assertion marks the test failed and stops the goroutine (\<open>FailNow\<close>).\<close>

datatype test_outcome = Continues | FailNow

definition StatusNotFound :: int where
  "StatusNotFound = 404"

definition addTestClusterRoleBinding ::
  "admin_client \<Rightarrow> ClusterRoleBinding \<Rightarrow> T \<Rightarrow> test_outcome \<times> T" where
  "addTestClusterRoleBinding adminClient binding t =
     (let t = t\<lparr> api_calls := api_calls t @ [Call_Get (crb_Name binding)] \<rparr>;
          register = (\<lambda>t. t\<lparr> cleanups := cleanups t @ [Cleanup_Delete (crb_Name binding)] \<rparr>)
      in case ClusterRoleBindings_Get adminClient (crb_Name binding) of
           None \<Rightarrow> (Continues, register t)
         | Some err \<Rightarrow>
        (case err of
           OtherError msg \<Rightarrow> (FailNow, t\<lparr> failed := True \<rparr>)
         | StatusError code \<Rightarrow>
             if StatusNotFound \<noteq> sint code then (FailNow, t\<lparr> failed := True \<rparr>)
             else
               (let t = t\<lparr> api_calls := api_calls t @ [Call_Create binding] \<rparr> in
                case ClusterRoleBindings_Create adminClient binding of
                  Some err \<Rightarrow> (FailNow, t\<lparr> failed := True \<rparr>)
                | None \<Rightarrow> (Continues, register t))))"


text \<open>
  The answer of \<open>Get\<close> the helper accepts as "not found": a \<open>*errors.StatusError\<close> whose
  code is \<open>http.StatusNotFound\<close>.
\<close>

fun is_NotFound :: "k8s_error option \<Rightarrow> bool" where
  "is_NotFound (Some (StatusError code)) = (sint code = StatusNotFound)"
| "is_NotFound _ = False"

section \<open>The state in which both servers have been started\<close>

text \<open>
  The impersonation proxy server as \<open>runServer\<close> builds it around the issued certificate,
  and the state a run from \<open>init_state\<close> leaves when it reaches \<open>Run\<close>: the cache is
  object 0, the serving-certificate provider object 1, the signing-key provider object 2.
\<close>

definition proxy_server :: "tls_Certificate \<Rightarrow> http_Server" where
  "proxy_server cert =
     \<lparr> Addr = ''0.0.0.0:8444'',
       Handler = \<lparr> imp_cache = 0, imp_log = ''impersonation-proxy'' \<rparr>,
       TLSConfig = \<lparr> MinVersion = VersionTLS12, Certificates = [cert], GetCertificate = None \<rparr> \<rparr>"

definition all_steps_ok :: "(step \<times> error option) list" where
  "all_steps_ok = map (\<lambda>s. (s, None))
     [LoadConfig, ReadPodMetadata, PrepareControllers, ConfigureAggregatedAPIServer,
      CreateAggregatedAPIServer, CreateImpersonationCA, CreateImpersonationCert,
      CreateImpersonationProxy]"

definition started_state :: "tls_Certificate \<Rightarrow> apiserver_Config \<Rightarrow> state" where
  "started_state cert apiCfg =
     \<lparr> next_ref = 3,
       caches = [0 \<mapsto> Map.empty],
       providers = [1 \<mapsto> None, 2 \<mapsto> None],
       steps = all_steps_ok,
       goroutines = [proxy_server cert],
       running = [Server apiCfg],
       klog = [], authn_calls = [], upstream_requests = [] \<rparr>"


section \<open>Concrete scenarios\<close>

text \<open>An installation in which every step of the startup succeeds.\<close>

definition scenario_config :: Config where
  "scenario_config =
     \<lparr> APIGroupSuffix = Some ''pinniped.dev'',
       Names = NamesConfig ''pinniped-concierge'',
       Labels = [],
       KubeCertAgent = KubeCertAgentConfig ''kube-cert-agent'',
       DiscoveryInfo_URL = None,
       DurationSeconds = Some 31536000,
       RenewBeforeSeconds = Some 2764800 \<rparr>"

definition scenario_env :: env where
  "scenario_env =
     \<lparr> concierge_FromPath = (\<lambda>path. Inr scenario_config),
       downward_Load = (\<lambda>path. Inr (PodInfo ''concierge'')),
       controllermanager_PrepareControllers = (\<lambda>c. Inr (Hook 0)),
       GroupName = ''login.concierge.pinniped.dev'',
       apigroup_Make = (\<lambda>g suffix. (''login.concierge.'' @ suffix, True)),
       ApplyTo_err = (\<lambda>opts. None),
       Complete_New_err = (\<lambda>c. None),
       certauthority_New = (\<lambda>cn d. Inr (CA cn)),
       ca_Issue = (\<lambda>ca subject dns ips d. Inr (TLSCertificate ''startup-cert'')),
       impersonator_New_err = (\<lambda>cache log. None),
       ListenAndServeTLS = (\<lambda>srv. Some (Err ''bind: address already in use'')),
       GenericAPIServer_Run = (\<lambda>server. None) \<rparr>"

definition scenario_app :: App where
  "scenario_app = \<lparr> configPath = ''pinniped.yaml'', downwardAPIPath = ''/etc/podinfo'' \<rparr>"

definition scenario_apiserver_config :: apiserver_Config where
  "scenario_apiserver_config =
     \<lparr> GenericConfig = \<lparr> SecureServing_Cert = Some 1, SecureServing_Port = 8443 \<rparr>,
       ExtraCfg = \<lparr> Authenticator = 0, Issuer = DynamicCertAuthority 2,
                    StartControllersPostStartHook = Hook 0 \<rparr> \<rparr>"


text \<open>The same installation, except that the impersonation CA cannot be constructed.\<close>

definition scenario_env_ca_fails :: env where
  "scenario_env_ca_fails =
     scenario_env\<lparr> certauthority_New := (\<lambda>cn d. Inl (Err ''key generation failed'')) \<rparr>"

text \<open>
  The state after the startup once an external mutator has set both certificate providers
  to a rotated certificate.
\<close>

definition scenario_rotated :: state where
  "scenario_rotated =
     provider_Set 2 ''rotated-cert'' ''rotated-key'' None
       (provider_Set 1 ''rotated-cert'' ''rotated-key'' None
          (started_state (TLSCertificate ''startup-cert'') scenario_apiserver_config))"

text \<open>The same installation, except that the config file cannot be read.\<close>

definition scenario_env_no_config :: env where
  "scenario_env_no_config =
     scenario_env\<lparr> concierge_FromPath := (\<lambda>path. Inl (Err ''no such file or directory'')) \<rparr>"


text \<open>
  Scenarios A, B and D of the spec: the authenticator registered under
  \<open>(webhook, group.example.com, primary)\<close> accepts \<open>good-token\<close> as alice of group admins.
\<close>

definition scenario_id :: AuthenticatorID where
  "scenario_id = \<lparr> id_kind = ''webhook'', id_apiGroup = ''group.example.com'', id_name = ''primary'' \<rparr>"

definition scenario_authenticator :: Authenticator where
  "scenario_authenticator token =
     (if token = ''good-token'' then Some \<lparr> username = ''alice'', groups = [''admins''] \<rparr> else None)"

definition scenario_state :: state where
  "scenario_state =
     cache_Store 0 scenario_id scenario_authenticator
       (started_state (TLSCertificate ''startup-cert'') scenario_apiserver_config)"

definition scenario_request :: "string \<Rightarrow> Request" where
  "scenario_request token =
     \<lparr> req_method = ''GET'', req_path = ''/api/v1/namespaces'', req_query = ''limit=500'',
       req_headers = [(''Authorization'', ''Bearer '' @ token), (''Impersonate-User'', ''root''),
                      (''Accept'', ''application/json'')],
       req_body = [] \<rparr>"

definition scenario_upstream :: "Request \<Rightarrow> error + Response" where
  "scenario_upstream req = Inr \<lparr> resp_status = 200, resp_headers = [], resp_body = ''{}'' \<rparr>"

definition scenario_binding :: ClusterRoleBinding where
  "scenario_binding =
     \<lparr> crb_Name = ''integration-test-user-readonly-role-binding'',
       crb_Subjects = [(''User'', ''rbac.authorization.k8s.io'', ''alice'')],
       crb_RoleRef = (''ClusterRole'', ''rbac.authorization.k8s.io'', ''view'') \<rparr>"

definition scenario_client :: admin_client where
  "scenario_client =
     \<lparr> ClusterRoleBindings_Get = (\<lambda>name. Some (StatusError 404)),
       ClusterRoleBindings_Create = (\<lambda>b. None) \<rparr>"

definition scenario_client_unreachable :: admin_client where
  "scenario_client_unreachable =
     \<lparr> ClusterRoleBindings_Get = (\<lambda>name. Some (OtherError ''connection refused'')),
       ClusterRoleBindings_Create = (\<lambda>b. None) \<rparr>"

definition scenario_T :: T where
  "scenario_T = \<lparr> failed = False, cleanups = [], api_calls = [] \<rparr>"

section \<open>Facts about \<open>runServer\<close> shared by the proofs\<close>

lemmas runServer_unfold =
  runServer_def record_step_def authncache_New_def dynamiccert_New_def
  go_ListenAndServeTLS_def PrepareRun_Run_def impersonator_New_def Let_def

lemma runServer_started:
  assumes "runServer env a init_state = (r, st')"
      and "goroutines st' \<noteq> [] \<or> running st' \<noteq> []"
  shows "\<exists>suffix hook apiCfg ca cert.
           getAggregatedAPIServerConfig env 1 0 (DynamicCertAuthority 2) hook suffix = Inr apiCfg
         \<and> certauthority_New env ''test CA'' (24 * Hour) = Inr ca
         \<and> ca_Issue env ca [] [''impersonation-proxy''] [] (24 * Hour) = Inr cert
         \<and> r = Returned (GenericAPIServer_Run env (Server apiCfg))
         \<and> st' = started_state cert apiCfg"
  using assms
  unfolding runServer_unfold init_state_def started_state_def proxy_server_def all_steps_ok_def
    dynamiccertauthority_New_def
  by (auto simp: numeral_2_eq_2 numeral_3_eq_3 split: sum.splits option.splits prod.splits)

lemma getAggregatedAPIServerConfig_wiring:
  assumes "getAggregatedAPIServerConfig env p c i h s = Inr apiCfg"
  shows "SecureServing_Cert (GenericConfig apiCfg) = Some p
       \<and> ExtraCfg apiCfg = \<lparr> Authenticator = c, Issuer = i, StartControllersPostStartHook = h \<rparr>"
  using assms
  unfolding getAggregatedAPIServerConfig_def ApplyTo_def Let_def
  by (auto split: sum.splits option.splits prod.splits if_splits)

lemma scenario_run:
  "runServer scenario_env scenario_app init_state
     = (Returned None, started_state (TLSCertificate ''startup-cert'') scenario_apiserver_config)"
  unfolding runServer_unfold init_state_def started_state_def proxy_server_def all_steps_ok_def
    dynamiccertauthority_New_def scenario_env_def scenario_app_def scenario_config_def
    scenario_apiserver_config_def getAggregatedAPIServerConfig_def ApplyTo_def
    NewRecommendedOptions_def NewRecommendedConfig_def
  by (simp add: numeral_2_eq_2 numeral_3_eq_3)

lemma scenario_ca_fails_run:
  "runServer scenario_env_ca_fails scenario_app init_state
     = (Returned (Some (Wrapped ''could not create impersonation CA'' (Err ''key generation failed''))),
        \<lparr> next_ref = 3,
          caches = [0 \<mapsto> Map.empty],
          providers = [1 \<mapsto> None, 2 \<mapsto> None],
          steps = [(LoadConfig, None), (ReadPodMetadata, None), (PrepareControllers, None),
                   (ConfigureAggregatedAPIServer, None), (CreateAggregatedAPIServer, None),
                   (CreateImpersonationCA, Some (Err ''key generation failed''))],
          goroutines = [], running = [], klog = [], authn_calls = [], upstream_requests = [] \<rparr>)"
  unfolding runServer_unfold init_state_def
    dynamiccertauthority_New_def scenario_env_ca_fails_def scenario_env_def scenario_app_def
    scenario_config_def getAggregatedAPIServerConfig_def ApplyTo_def
    NewRecommendedOptions_def NewRecommendedConfig_def
  by (simp add: numeral_2_eq_2 numeral_3_eq_3)

lemma runServer_ignores_listener:
  "runServer (env\<lparr> ListenAndServeTLS := listen \<rparr>) a st = runServer env a st"
  unfolding runServer_def getAggregatedAPIServerConfig_def ApplyTo_def impersonator_New_def
    PrepareRun_Run_def
  by (simp cong: sum.case_cong option.case_cong prod.case_cong if_cong)

section \<open>The startup: \<open>runServer\<close>\<close>

text \<open>
  Claim C7. Every startup failure is fatal. Whichever collaborator is the first to fail
  (loading the config file, reading the pod metadata, preparing the controllers, building
  or completing the aggregated API server configuration, constructing the impersonation
  CA, issuing the impersonation certificate, constructing the impersonation proxy), all
  the ones before it having succeeded, \<open>runServer\<close> returns the non-nil error that wraps
  that failure with the text of the step, and neither the proxy goroutine nor the
  aggregated API server has been started.
\<close>

theorem startup_failure_is_fatal:
  assumes
    "concierge_FromPath env (configPath a) = Inl e \<and> stp = LoadConfig
     \<or> concierge_FromPath env (configPath a) = Inr cfg \<and>
      (downward_Load env (downwardAPIPath a) = Inl e \<and> stp = ReadPodMetadata
       \<or> downward_Load env (downwardAPIPath a) = Inr podInfo
         \<and> APIGroupSuffix cfg = Some apiGroupSuffix
         \<and> DurationSeconds cfg = Some durationSeconds
         \<and> RenewBeforeSeconds cfg = Some renewBeforeSeconds
         \<and> controllers = \<lparr> ServerInstallationInfo = podInfo,
                            cm_APIGroupSuffix = apiGroupSuffix,
                            cm_NamesConfig = Names cfg,
                            cm_Labels = Labels cfg,
                            cm_KubeCertAgentConfig = KubeCertAgent cfg,
                            DiscoveryURLOverride = DiscoveryInfo_URL cfg,
                            DynamicServingCertProvider = 1,
                            DynamicSigningCertProvider = 2,
                            ServingCertDuration = durationSeconds * Second,
                            ServingCertRenewBefore = renewBeforeSeconds * Second,
                            AuthenticatorCache = 0 \<rparr> \<and>
      (controllermanager_PrepareControllers env controllers = Inl e \<and> stp = PrepareControllers
       \<or> controllermanager_PrepareControllers env controllers = Inr hook \<and>
      (getAggregatedAPIServerConfig env 1 0 (dynamiccertauthority_New 2) hook apiGroupSuffix = Inl e
         \<and> stp = ConfigureAggregatedAPIServer
       \<or> getAggregatedAPIServerConfig env 1 0 (dynamiccertauthority_New 2) hook apiGroupSuffix
           = Inr apiCfg \<and>
      (Complete_New_err env apiCfg = Some e \<and> stp = CreateAggregatedAPIServer
       \<or> Complete_New_err env apiCfg = None \<and>
      (certauthority_New env ''test CA'' (24 * Hour) = Inl e \<and> stp = CreateImpersonationCA
       \<or> certauthority_New env ''test CA'' (24 * Hour) = Inr ca \<and>
      (ca_Issue env ca [] [''impersonation-proxy''] [] (24 * Hour) = Inl e
         \<and> stp = CreateImpersonationCert
       \<or> ca_Issue env ca [] [''impersonation-proxy''] [] (24 * Hour) = Inr cert
         \<and> impersonator_New env 0 ''impersonation-proxy'' = Inl e
         \<and> stp = CreateImpersonationProxy))))))"
  shows "fst (runServer env a init_state) = Returned (Some (Wrapped (failure_message stp) e))
       \<and> goroutines (snd (runServer env a init_state)) = []
       \<and> running (snd (runServer env a init_state)) = []"
  using assms
  unfolding runServer_def record_step_def authncache_New_def dynamiccert_New_def init_state_def
  by (elim disjE conjE) (simp_all add: numeral_2_eq_2)

text \<open>
  The theorem at two concrete installations: one whose config file cannot be read, one
  whose impersonation CA cannot be constructed.
\<close>

theorem startup_failure_is_fatal_witness:
  "concierge_FromPath scenario_env_no_config (configPath scenario_app)
      = Inl (Err ''no such file or directory'')
   \<and> fst (runServer scenario_env_no_config scenario_app init_state)
      = Returned (Some (Wrapped ''could not load config'' (Err ''no such file or directory'')))
   \<and> goroutines (snd (runServer scenario_env_no_config scenario_app init_state)) = []
   \<and> running (snd (runServer scenario_env_no_config scenario_app init_state)) = []
   \<and> certauthority_New scenario_env_ca_fails ''test CA'' (24 * Hour)
      = Inl (Err ''key generation failed'')
   \<and> fst (runServer scenario_env_ca_fails scenario_app init_state)
      = Returned (Some (Wrapped ''could not create impersonation CA'' (Err ''key generation failed'')))
   \<and> goroutines (snd (runServer scenario_env_ca_fails scenario_app init_state)) = []
   \<and> running (snd (runServer scenario_env_ca_fails scenario_app init_state)) = []"
proof -
  have no_config: "concierge_FromPath scenario_env_no_config (configPath scenario_app)
      = Inl (Err ''no such file or directory'')"
    by (simp add: scenario_env_no_config_def)
  have config: "concierge_FromPath scenario_env_ca_fails (configPath scenario_app) = Inr scenario_config"
    and pod: "downward_Load scenario_env_ca_fails (downwardAPIPath scenario_app)
                = Inr (PodInfo ''concierge'')"
    and fields: "APIGroupSuffix scenario_config = Some ''pinniped.dev''"
      "DurationSeconds scenario_config = Some 31536000"
      "RenewBeforeSeconds scenario_config = Some 2764800"
    and controllers: "controllermanager_PrepareControllers scenario_env_ca_fails
         \<lparr> ServerInstallationInfo = PodInfo ''concierge'',
           cm_APIGroupSuffix = ''pinniped.dev'',
           cm_NamesConfig = Names scenario_config,
           cm_Labels = Labels scenario_config,
           cm_KubeCertAgentConfig = KubeCertAgent scenario_config,
           DiscoveryURLOverride = DiscoveryInfo_URL scenario_config,
           DynamicServingCertProvider = 1,
           DynamicSigningCertProvider = 2,
           ServingCertDuration = 31536000 * Second,
           ServingCertRenewBefore = 2764800 * Second,
           AuthenticatorCache = 0 \<rparr> = Inr (Hook 0)"
    and apiserver: "getAggregatedAPIServerConfig scenario_env_ca_fails 1 0
         (dynamiccertauthority_New 2) (Hook 0) ''pinniped.dev'' = Inr scenario_apiserver_config"
    and complete: "Complete_New_err scenario_env_ca_fails scenario_apiserver_config = None"
    and ca_fails: "certauthority_New scenario_env_ca_fails ''test CA'' (24 * Hour)
      = Inl (Err ''key generation failed'')"
    by (simp_all add: scenario_env_ca_fails_def scenario_env_def scenario_config_def
          scenario_apiserver_config_def getAggregatedAPIServerConfig_def ApplyTo_def
          dynamiccertauthority_New_def NewRecommendedOptions_def NewRecommendedConfig_def)
  from startup_failure_is_fatal [of scenario_env_no_config scenario_app
         "Err ''no such file or directory''" LoadConfig]
       no_config
  have first: "fst (runServer scenario_env_no_config scenario_app init_state)
      = Returned (Some (Wrapped ''could not load config'' (Err ''no such file or directory'')))
   \<and> goroutines (snd (runServer scenario_env_no_config scenario_app init_state)) = []
   \<and> running (snd (runServer scenario_env_no_config scenario_app init_state)) = []"
    by simp
  from startup_failure_is_fatal [of scenario_env_ca_fails scenario_app
         "Err ''key generation failed''" CreateImpersonationCA scenario_config
         "PodInfo ''concierge''" "''pinniped.dev''" 31536000 2764800 _ "Hook 0"
         scenario_apiserver_config]
       config pod fields controllers apiserver complete ca_fails
  have second: "fst (runServer scenario_env_ca_fails scenario_app init_state)
      = Returned (Some (Wrapped ''could not create impersonation CA'' (Err ''key generation failed'')))
   \<and> goroutines (snd (runServer scenario_env_ca_fails scenario_app init_state)) = []
   \<and> running (snd (runServer scenario_env_ca_fails scenario_app init_state)) = []"
    by simp
  from no_config ca_fails first second show ?thesis by simp
qed

text \<open>
  Claim C9. A failure of the proxy's TLS listener is not fatal: the goroutine only logs
  the error, \<open>runServer\<close> returns what the aggregated API server's \<open>Run\<close> returns,
  whatever the listener answers, and the aggregated API server has been started.
\<close>

theorem proxy_listener_failure_not_fatal:
  assumes "runServer env a init_state = (r, st')"
      and "srv \<in> set (goroutines st')"
      and "ListenAndServeTLS env srv = Some e"
  shows "(\<exists>server. running st' = [server] \<and> r = Returned (GenericAPIServer_Run env server))
       \<and> proxy_goroutine env srv s = s\<lparr> klog := klog s @ [(e, ''could not serve impersonation proxy'')] \<rparr>
       \<and> fst (runServer (env\<lparr> ListenAndServeTLS := listen \<rparr>) a init_state) = r"
proof -
  from assms(2) have "goroutines st' \<noteq> [] \<or> running st' \<noteq> []" by auto
  from runServer_started [OF assms(1) this]
  obtain cert apiCfg where r: "r = Returned (GenericAPIServer_Run env (Server apiCfg))"
    and st': "st' = started_state cert apiCfg" by blast
  have 1: "\<exists>server. running st' = [server] \<and> r = Returned (GenericAPIServer_Run env server)"
    by (simp add: r st' started_state_def)
  have 2: "proxy_goroutine env srv s = s\<lparr> klog := klog s @ [(e, ''could not serve impersonation proxy'')] \<rparr>"
    by (simp add: proxy_goroutine_def assms(3))
  have 3: "fst (runServer (env\<lparr> ListenAndServeTLS := listen \<rparr>) a init_state) = r"
    by (simp add: runServer_ignores_listener assms(1))
  from 1 2 3 show ?thesis by blast
qed

text \<open>The theorem at the concrete installation.\<close>

theorem proxy_listener_failure_not_fatal_witness:
  "proxy_server (TLSCertificate ''startup-cert'')
      \<in> set (goroutines (snd (runServer scenario_env scenario_app init_state)))
   \<and> ListenAndServeTLS scenario_env (proxy_server (TLSCertificate ''startup-cert''))
      = Some (Err ''bind: address already in use'')
   \<and> fst (runServer scenario_env scenario_app init_state) = Returned None
   \<and> running (snd (runServer scenario_env scenario_app init_state)) = [Server scenario_apiserver_config]
   \<and> klog (proxy_goroutine scenario_env (proxy_server (TLSCertificate ''startup-cert''))
             (snd (runServer scenario_env scenario_app init_state)))
      = [(Err ''bind: address already in use'', ''could not serve impersonation proxy'')]"
proof -
  have spawned: "proxy_server (TLSCertificate ''startup-cert'')
      \<in> set (goroutines (started_state (TLSCertificate ''startup-cert'') scenario_apiserver_config))"
    by (simp add: started_state_def)
  have fails: "ListenAndServeTLS scenario_env (proxy_server (TLSCertificate ''startup-cert''))
      = Some (Err ''bind: address already in use'')"
    by (simp add: scenario_env_def)
  from proxy_listener_failure_not_fatal [OF scenario_run spawned fails,
         of "started_state (TLSCertificate ''startup-cert'') scenario_apiserver_config"]
  have "klog (proxy_goroutine scenario_env (proxy_server (TLSCertificate ''startup-cert''))
             (started_state (TLSCertificate ''startup-cert'') scenario_apiserver_config))
      = [(Err ''bind: address already in use'', ''could not serve impersonation proxy'')]"
    by (simp add: started_state_def)
  with spawned fails show ?thesis
    by (simp add: scenario_run started_state_def)
qed

text \<open>
  Claim C5. The single Authenticator Cache created at startup is the one in the aggregated
  API server configuration and the one the impersonation proxy was constructed with, so
  an authenticator stored through either is returned by \<open>Get\<close> through the other.
\<close>

theorem one_cache_for_both_consumers:
  assumes "runServer env a init_state = (r, st')"
      and "srv \<in> set (goroutines st')"
      and "server \<in> set (running st')"
  shows "Authenticator (ExtraCfg (server_config server)) = imp_cache (Handler srv)
       \<and> dom (caches st') = {imp_cache (Handler srv)}
       \<and> cache_Get (cache_Store (imp_cache (Handler srv)) k v st')
            (Authenticator (ExtraCfg (server_config server))) k = Some v
       \<and> cache_Get (cache_Store (Authenticator (ExtraCfg (server_config server))) k v st')
            (imp_cache (Handler srv)) k = Some v"
proof -
  from assms(2) have "goroutines st' \<noteq> [] \<or> running st' \<noteq> []" by auto
  from runServer_started [OF assms(1) this]
  obtain suffix hook cert apiCfg where
        cfg: "getAggregatedAPIServerConfig env 1 0 (DynamicCertAuthority 2) hook suffix = Inr apiCfg"
    and st': "st' = started_state cert apiCfg" by blast
  from assms(2) have srv: "srv = proxy_server cert" by (simp add: st' started_state_def)
  from assms(3) have server: "server = Server apiCfg" by (simp add: st' started_state_def)
  from getAggregatedAPIServerConfig_wiring [OF cfg]
  have a: "Authenticator (ExtraCfg apiCfg) = 0" by simp
  have c: "imp_cache (Handler srv) = 0" by (simp add: srv proxy_server_def)
  show ?thesis
    unfolding server server_config.simps a c
    by (simp add: st' started_state_def cache_Get_def cache_Store_def)
qed

text \<open>The theorem at the concrete installation.\<close>

theorem one_cache_for_both_consumers_witness:
  "proxy_server (TLSCertificate ''startup-cert'')
      \<in> set (goroutines (snd (runServer scenario_env scenario_app init_state)))
   \<and> Server scenario_apiserver_config
      \<in> set (running (snd (runServer scenario_env scenario_app init_state)))
   \<and> Authenticator (ExtraCfg (server_config (Server scenario_apiserver_config)))
      = imp_cache (Handler (proxy_server (TLSCertificate ''startup-cert'')))
   \<and> dom (caches (snd (runServer scenario_env scenario_app init_state))) = {0}"
  using one_cache_for_both_consumers [OF scenario_run,
          of "proxy_server (TLSCertificate ''startup-cert'')" "Server scenario_apiserver_config"]
  by (simp add: scenario_run started_state_def proxy_server_def scenario_apiserver_config_def)

text \<open>
  Claim C6. Exactly two certificate providers exist after the startup and they are
  distinct: one is the certificate source of the aggregated API server, the other backs
  the certificate authority of the Credential Issuer.
\<close>

theorem two_certificate_providers_not_conflated:
  assumes "runServer env a init_state = (r, st')"
      and "server \<in> set (running st')"
  shows "\<exists>serving signing. serving \<noteq> signing
          \<and> dom (providers st') = {serving, signing}
          \<and> SecureServing_Cert (GenericConfig (server_config server)) = Some serving
          \<and> Issuer (ExtraCfg (server_config server)) = DynamicCertAuthority signing"
proof -
  from assms(2) have "goroutines st' \<noteq> [] \<or> running st' \<noteq> []" by auto
  from runServer_started [OF assms(1) this]
  obtain suffix hook cert apiCfg where
        cfg: "getAggregatedAPIServerConfig env 1 0 (DynamicCertAuthority 2) hook suffix = Inr apiCfg"
    and st': "st' = started_state cert apiCfg" by blast
  from assms(2) have server: "server = Server apiCfg" by (simp add: st' started_state_def)
  from getAggregatedAPIServerConfig_wiring [OF cfg]
  have a: "SecureServing_Cert (GenericConfig apiCfg) = Some 1"
    and b: "Issuer (ExtraCfg apiCfg) = DynamicCertAuthority 2" by simp_all
  have d: "dom (providers st') = {1, 2}" by (auto simp: st' started_state_def)
  have "(1::ref) \<noteq> 2" by simp
  with a b d show ?thesis unfolding server server_config.simps by blast
qed

text \<open>The theorem at the concrete installation.\<close>

theorem two_certificate_providers_not_conflated_witness:
  "Server scenario_apiserver_config
      \<in> set (running (snd (runServer scenario_env scenario_app init_state)))
   \<and> (\<exists>serving signing. serving \<noteq> signing
          \<and> dom (providers (snd (runServer scenario_env scenario_app init_state))) = {serving, signing}
          \<and> SecureServing_Cert (GenericConfig (server_config (Server scenario_apiserver_config))) = Some serving
          \<and> Issuer (ExtraCfg (server_config (Server scenario_apiserver_config))) = DynamicCertAuthority signing)"
  using two_certificate_providers_not_conflated [OF scenario_run, of "Server scenario_apiserver_config"]
  by (simp add: scenario_run started_state_def)



text \<open>
  Claim C1, as the code has it. The serving certificate of the impersonation proxy is the
  one certificate issued at startup by the CA named "test CA": it is the only element of
  \<open>Certificates\<close> in the TLS configuration of the proxy server, which has no
  \<open>GetCertificate\<close> hook, so every handshake presents that certificate whatever the
  certificate providers hold.
\<close>

theorem proxy_certificate_fixed_at_startup:
  assumes "runServer env a init_state = (r, st')"
      and "srv \<in> set (goroutines st')"
  shows "\<exists>ca cert. certauthority_New env ''test CA'' (24 * Hour) = Inr ca
          \<and> ca_Issue env ca [] [''impersonation-proxy''] [] (24 * Hour) = Inr cert
          \<and> Certificates (TLSConfig srv) = [cert]
          \<and> GetCertificate (TLSConfig srv) = None
          \<and> (\<forall>s serverName. getCertificate s (TLSConfig srv) serverName = Presented cert)"
proof -
  from assms(2) have "goroutines st' \<noteq> [] \<or> running st' \<noteq> []" by auto
  from runServer_started [OF assms(1) this]
  obtain ca cert apiCfg where
        ca: "certauthority_New env ''test CA'' (24 * Hour) = Inr ca"
    and cert: "ca_Issue env ca [] [''impersonation-proxy''] [] (24 * Hour) = Inr cert"
    and st': "st' = started_state cert apiCfg" by blast
  from assms(2) have srv: "srv = proxy_server cert" by (simp add: st' started_state_def)
  have "Certificates (TLSConfig srv) = [cert]" "GetCertificate (TLSConfig srv) = None"
    by (simp_all add: srv proxy_server_def)
  moreover from this
  have "\<forall>s serverName. getCertificate s (TLSConfig srv) serverName = Presented cert"
    by (simp add: getCertificate_def)
  ultimately show ?thesis using ca cert by blast
qed

text \<open>The theorem at the concrete installation.\<close>

theorem proxy_certificate_fixed_at_startup_witness:
  "proxy_server (TLSCertificate ''startup-cert'')
      \<in> set (goroutines (snd (runServer scenario_env scenario_app init_state)))
   \<and> (\<exists>ca cert. certauthority_New scenario_env ''test CA'' (24 * Hour) = Inr ca
          \<and> ca_Issue scenario_env ca [] [''impersonation-proxy''] [] (24 * Hour) = Inr cert
          \<and> Certificates (TLSConfig (proxy_server (TLSCertificate ''startup-cert''))) = [cert]
          \<and> GetCertificate (TLSConfig (proxy_server (TLSCertificate ''startup-cert''))) = None
          \<and> (\<forall>s serverName. getCertificate s (TLSConfig (proxy_server (TLSCertificate ''startup-cert''))) serverName
                 = Presented cert))"
proof -
  have spawned: "proxy_server (TLSCertificate ''startup-cert'')
      \<in> set (goroutines (started_state (TLSCertificate ''startup-cert'') scenario_apiserver_config))"
    by (simp add: started_state_def)
  from proxy_certificate_fixed_at_startup [OF scenario_run spawned] spawned
  show ?thesis by (simp add: scenario_run)
qed

text \<open>
  Claim C1, as stated, fails: after both certificate providers have been set to a rotated
  certificate, a handshake with the proxy still presents the certificate issued at startup.
\<close>

theorem proxy_certificate_rotation_counterexample:
  "goroutines (snd (runServer scenario_env scenario_app init_state))
      = [proxy_server (TLSCertificate ''startup-cert'')]
   \<and> provider_CurrentCert scenario_rotated 1
      = Some \<lparr> certChain = ''rotated-cert'', privateKey = ''rotated-key'', certName = None \<rparr>
   \<and> provider_CurrentCert scenario_rotated 2
      = Some \<lparr> certChain = ''rotated-cert'', privateKey = ''rotated-key'', certName = None \<rparr>
   \<and> getCertificate scenario_rotated (TLSConfig (proxy_server (TLSCertificate ''startup-cert'')))
        ''concierge.example.com''
      = Presented (TLSCertificate ''startup-cert'')
   \<and> getCertificate scenario_rotated (TLSConfig (proxy_server (TLSCertificate ''startup-cert'')))
        ''concierge.example.com''
      \<noteq> Presented (TLSCertificate ''rotated-cert'')"
  by (simp add: scenario_run started_state_def scenario_rotated_def provider_Set_def
        provider_CurrentCert_def getCertificate_def proxy_server_def)


section \<open>Serving with a certificate provider\<close>




section \<open>Requests to the impersonation proxy\<close>

lemma header_values_append:
  "header_values n (xs @ ys) = header_values n xs @ header_values n ys"
  by (simp add: header_values_def)

lemma header_values_strip:
  "is_impersonation_header n \<Longrightarrow> header_values n (strip_impersonation_headers hs) = []"
  by (induction hs) (auto simp: header_values_def strip_impersonation_headers_def)

lemma header_values_group_headers:
  "header_values n (map (\<lambda>g. (''Impersonate-Group'', g)) gs)
     = (if n = ''Impersonate-Group'' then gs else [])"
  by (induction gs) (auto simp: header_values_def)

lemma header_values_impersonation_headers:
  "header_values ''Impersonate-User'' (impersonation_headers ident) = [username ident]"
  "header_values ''Impersonate-Group'' (impersonation_headers ident) = groups ident"
  unfolding impersonation_headers_def
  using header_values_group_headers [of "''Impersonate-User''" "groups ident"]
        header_values_group_headers [of "''Impersonate-Group''" "groups ident"]
  by (simp_all add: header_values_def)

text \<open>
  Claim C2. A request that authenticates is forwarded upstream once, with
  \<open>Impersonate-User\<close> equal to the authenticated username and nothing else, one
  \<open>Impersonate-Group\<close> per authenticated group and nothing else (every value the client
  supplied for these headers is gone), and with the method, path, query and body of the
  inbound request.
\<close>

theorem authenticated_request_is_forwarded_impersonating:
  assumes "extract_credential req = Some token"
      and "cache_Get st (imp_cache p) authID = Some authn"
      and "authn token = Some ident"
      and "ServeHTTP upstream p authID req st = (resp, st')"
  shows "\<exists>forwarded. upstream_requests st' = upstream_requests st @ [forwarded]
          \<and> header_values ''Impersonate-User'' (req_headers forwarded) = [username ident]
          \<and> header_values ''Impersonate-Group'' (req_headers forwarded) = groups ident
          \<and> req_method forwarded = req_method req
          \<and> req_path forwarded = req_path req
          \<and> req_query forwarded = req_query req
          \<and> req_body forwarded = req_body req"
proof -
  let ?fwd = "req\<lparr> req_headers :=
                 strip_impersonation_headers (req_headers req) @ impersonation_headers ident \<rparr>"
  from assms have "upstream_requests st' = upstream_requests st @ [?fwd]"
    by (auto simp: ServeHTTP_def Let_def split: sum.splits)
  moreover have "header_values ''Impersonate-User'' (req_headers ?fwd) = [username ident]"
    by (simp add: header_values_append header_values_strip header_values_impersonation_headers
          is_impersonation_header_def)
  moreover have "header_values ''Impersonate-Group'' (req_headers ?fwd) = groups ident"
    by (simp add: header_values_append header_values_strip header_values_impersonation_headers
          is_impersonation_header_def)
  ultimately show ?thesis by (intro exI [of _ ?fwd]) simp
qed


text \<open>The theorem at the concrete scenarios.\<close>

theorem authenticated_request_is_forwarded_impersonating_witness:
  "extract_credential (scenario_request ''good-token'') = Some ''good-token''
   \<and> cache_Get scenario_state (imp_cache (Handler (proxy_server (TLSCertificate ''startup-cert''))))
         scenario_id = Some scenario_authenticator
   \<and> scenario_authenticator ''good-token'' = Some \<lparr> username = ''alice'', groups = [''admins''] \<rparr>
   \<and> (\<exists>forwarded.
         upstream_requests (snd (ServeHTTP scenario_upstream
             (Handler (proxy_server (TLSCertificate ''startup-cert''))) scenario_id
             (scenario_request ''good-token'') scenario_state)) = [forwarded]
       \<and> header_values ''Impersonate-User'' (req_headers forwarded) = [''alice'']
       \<and> header_values ''Impersonate-Group'' (req_headers forwarded) = [''admins'']
       \<and> req_method forwarded = ''GET''
       \<and> req_path forwarded = ''/api/v1/namespaces''
       \<and> req_query forwarded = ''limit=500''
       \<and> req_body forwarded = [])"
proof -
  have cred: "extract_credential (scenario_request ''good-token'') = Some ''good-token''"
    by (simp add: extract_credential_def scenario_request_def bearer_token_def)
  have hit: "cache_Get scenario_state (imp_cache (Handler (proxy_server (TLSCertificate ''startup-cert''))))
         scenario_id = Some scenario_authenticator"
    by (simp add: cache_Get_def cache_Store_def scenario_state_def started_state_def proxy_server_def)
  have ok: "scenario_authenticator ''good-token'' = Some \<lparr> username = ''alice'', groups = [''admins''] \<rparr>"
    by (simp add: scenario_authenticator_def)
  have none_before: "upstream_requests scenario_state = []"
    by (simp add: cache_Store_def scenario_state_def started_state_def)
  have request: "req_method (scenario_request ''good-token'') = ''GET''"
    "req_path (scenario_request ''good-token'') = ''/api/v1/namespaces''"
    "req_query (scenario_request ''good-token'') = ''limit=500''"
    "req_body (scenario_request ''good-token'') = []"
    by (simp_all add: scenario_request_def)
  from authenticated_request_is_forwarded_impersonating [OF cred hit ok surjective_pairing]
  show ?thesis
    using cred hit ok by (simp add: none_before request)
qed
text \<open>
  Claim C3. A request whose authenticator id is not in the cache, which presents no
  credential, or whose credential the authenticator rejects is answered with 401, sends
  nothing upstream, and calls the authenticator at most once.
\<close>

theorem unauthenticated_request_is_rejected:
  assumes "cache_Get st (imp_cache p) authID = None
           \<or> extract_credential req = None
           \<or> (\<exists>token authn. extract_credential req = Some token
                 \<and> cache_Get st (imp_cache p) authID = Some authn \<and> authn token = None)"
      and "ServeHTTP upstream p authID req st = (resp, st')"
  shows "resp_status resp = 401
       \<and> upstream_requests st' = upstream_requests st
       \<and> length (authn_calls st') \<le> length (authn_calls st) + 1"
  using assms
  by (auto simp: ServeHTTP_def Let_def unauthorized_def split: option.splits)


text \<open>The theorem at the concrete scenarios.\<close>

theorem unauthenticated_request_is_rejected_witness:
  "extract_credential (scenario_request ''bad-token'') = Some ''bad-token''
   \<and> scenario_authenticator ''bad-token'' = None
   \<and> resp_status (fst (ServeHTTP scenario_upstream
         (Handler (proxy_server (TLSCertificate ''startup-cert''))) scenario_id
         (scenario_request ''bad-token'') scenario_state)) = 401
   \<and> upstream_requests (snd (ServeHTTP scenario_upstream
         (Handler (proxy_server (TLSCertificate ''startup-cert''))) scenario_id
         (scenario_request ''bad-token'') scenario_state)) = []
   \<and> cache_Get (started_state (TLSCertificate ''startup-cert'') scenario_apiserver_config)
         (imp_cache (Handler (proxy_server (TLSCertificate ''startup-cert'')))) scenario_id = None
   \<and> resp_status (fst (ServeHTTP scenario_upstream
         (Handler (proxy_server (TLSCertificate ''startup-cert''))) scenario_id
         (scenario_request ''good-token'')
         (started_state (TLSCertificate ''startup-cert'') scenario_apiserver_config))) = 401
   \<and> upstream_requests (snd (ServeHTTP scenario_upstream
         (Handler (proxy_server (TLSCertificate ''startup-cert''))) scenario_id
         (scenario_request ''good-token'')
         (started_state (TLSCertificate ''startup-cert'') scenario_apiserver_config))) = []"
proof -
  have cred: "extract_credential (scenario_request ''bad-token'') = Some ''bad-token''"
    by (simp add: extract_credential_def scenario_request_def bearer_token_def)
  have hit: "cache_Get scenario_state (imp_cache (Handler (proxy_server (TLSCertificate ''startup-cert''))))
         scenario_id = Some scenario_authenticator"
    by (simp add: cache_Get_def cache_Store_def scenario_state_def started_state_def proxy_server_def)
  have bad: "scenario_authenticator ''bad-token'' = None"
    by (simp add: scenario_authenticator_def)
  have miss: "cache_Get (started_state (TLSCertificate ''startup-cert'') scenario_apiserver_config)
         (imp_cache (Handler (proxy_server (TLSCertificate ''startup-cert'')))) scenario_id = None"
    by (simp add: cache_Get_def started_state_def proxy_server_def)
  have none_before: "upstream_requests scenario_state = []"
    "upstream_requests (started_state (TLSCertificate ''startup-cert'') scenario_apiserver_config) = []"
    by (simp_all add: cache_Store_def scenario_state_def started_state_def)
  from cred hit bad
  have rejected: "cache_Get scenario_state
           (imp_cache (Handler (proxy_server (TLSCertificate ''startup-cert'')))) scenario_id = None
         \<or> extract_credential (scenario_request ''bad-token'') = None
         \<or> (\<exists>token authn. extract_credential (scenario_request ''bad-token'') = Some token
               \<and> cache_Get scenario_state
                    (imp_cache (Handler (proxy_server (TLSCertificate ''startup-cert'')))) scenario_id
                  = Some authn
               \<and> authn token = None)"
    by blast
  from unauthenticated_request_is_rejected [OF rejected surjective_pairing]
       unauthenticated_request_is_rejected [OF disjI1 [OF miss] surjective_pairing,
         of scenario_upstream "scenario_request ''good-token''"]
  show ?thesis
    using cred bad miss by (simp add: none_before)
qed
section \<open>The role binding of the integration tests\<close>

text \<open>
  Claim C10. \<open>addTestClusterRoleBinding\<close> calls \<open>Create\<close>, once and with the given
  binding, exactly when the initial \<open>Get\<close> fails with a NotFound status error; after any
  other error of \<open>Get\<close> the test fails with no \<open>Create\<close>; and on every path on which
  the test goes on, one cleanup deleting the binding of that name has been registered.
\<close>

theorem addTestClusterRoleBinding_creates_only_when_not_found:
  assumes "addTestClusterRoleBinding adminClient binding t = (out, t')"
  shows "api_calls t' = api_calls t @ Call_Get (crb_Name binding) #
           (if is_NotFound (ClusterRoleBindings_Get adminClient (crb_Name binding))
            then [Call_Create binding] else [])
       \<and> (ClusterRoleBindings_Get adminClient (crb_Name binding) \<noteq> None
            \<and> \<not> is_NotFound (ClusterRoleBindings_Get adminClient (crb_Name binding))
          \<longrightarrow> out = FailNow \<and> failed t')
       \<and> (out = Continues \<longrightarrow> cleanups t' = cleanups t @ [Cleanup_Delete (crb_Name binding)])"
  using assms
  by (auto simp: addTestClusterRoleBinding_def Let_def
           split: option.splits k8s_error.splits if_splits)


text \<open>The theorem at the concrete scenarios.\<close>

theorem addTestClusterRoleBinding_creates_only_when_not_found_witness:
  "addTestClusterRoleBinding scenario_client scenario_binding scenario_T
     = (Continues,
        \<lparr> failed = False,
          cleanups = [Cleanup_Delete ''integration-test-user-readonly-role-binding''],
          api_calls = [Call_Get ''integration-test-user-readonly-role-binding'',
                       Call_Create scenario_binding] \<rparr>)
   \<and> ClusterRoleBindings_Get scenario_client_unreachable (crb_Name scenario_binding) \<noteq> None
   \<and> \<not> is_NotFound (ClusterRoleBindings_Get scenario_client_unreachable (crb_Name scenario_binding))
   \<and> fst (addTestClusterRoleBinding scenario_client_unreachable scenario_binding scenario_T) = FailNow
   \<and> api_calls (snd (addTestClusterRoleBinding scenario_client_unreachable scenario_binding scenario_T))
      = [Call_Get ''integration-test-user-readonly-role-binding'']"
proof -
  have run: "addTestClusterRoleBinding scenario_client scenario_binding scenario_T
     = (Continues,
        \<lparr> failed = False,
          cleanups = [Cleanup_Delete ''integration-test-user-readonly-role-binding''],
          api_calls = [Call_Get ''integration-test-user-readonly-role-binding'',
                       Call_Create scenario_binding] \<rparr>)"
    by (simp add: addTestClusterRoleBinding_def scenario_client_def scenario_T_def
          scenario_binding_def StatusNotFound_def)
  have other: "ClusterRoleBindings_Get scenario_client_unreachable (crb_Name scenario_binding) \<noteq> None"
    "\<not> is_NotFound (ClusterRoleBindings_Get scenario_client_unreachable (crb_Name scenario_binding))"
    by (simp_all add: scenario_client_unreachable_def)
  have name: "crb_Name scenario_binding = ''integration-test-user-readonly-role-binding''"
    by (simp add: scenario_binding_def)
  have fresh: "api_calls scenario_T = []" "cleanups scenario_T = []"
    by (simp_all add: scenario_T_def)
  from addTestClusterRoleBinding_creates_only_when_not_found [OF run]
       addTestClusterRoleBinding_creates_only_when_not_found [OF surjective_pairing,
         of scenario_client_unreachable scenario_binding scenario_T]
  show ?thesis
    using other by (simp add: run name fresh)
qed
end
